theory Spec2Isabelle
  imports Main
begin

section \<open>JavaScript values, objects and the object store\<close>

text \<open>
  The job handle of \<^verbatim>\<open>src/job.ts\<close> works on dynamically typed values: it tests them for
  truthiness, compares them with \<^verbatim>\<open>===\<close> and reads their properties. Objects are
  reached by reference, so that the difference between an object and a copy of it is
  visible: \<open>JRef a\<close> is the object stored at address \<open>a\<close>, \<open>JFun f\<close> the function
  number \<open>f\<close>. Numbers are integers here (no claim depends on a fraction or on NaN).
\<close>

type_synonym addr = nat

datatype jsval =
    JUndefined
  | JNull
  | JBool bool
  | JNum int
  | JStr string
  | JRef addr
  | JFun nat

text \<open>The test \<^verbatim>\<open>if (v)\<close>: undefined, null, false, 0 and the empty string are falsy.\<close>

fun truthy :: "jsval \<Rightarrow> bool" where
  "truthy JUndefined = False"
| "truthy JNull = False"
| "truthy (JBool b) = b"
| "truthy (JNum n) = (n \<noteq> 0)"
| "truthy (JStr s) = (s \<noteq> [])"
| "truthy (JRef a) = True"
| "truthy (JFun f) = True"

text \<open>
  An object is what reading its properties gives: \<open>JUndefined\<close> for a property that it
  does not have (or that holds undefined; property reads, \<^verbatim>\<open>extend\<close> and the query
  string do not tell the two apart).
\<close>

type_synonym jsobj = "string \<Rightarrow> jsval"

definition no_props :: jsobj where
  "no_props = (\<lambda>k. JUndefined)"

text \<open>
  What the handle hands to a collaborator: the request options built by
  \<^verbatim>\<open>getQueryResults\<close> and \<^verbatim>\<open>cancel\<close> (\<^verbatim>\<open>method\<close>, \<^verbatim>\<open>uri\<close>, \<^verbatim>\<open>qs\<close>), sent through
  \<^verbatim>\<open>this.bigQuery.request\<close> or through the handle's own \<^verbatim>\<open>this.request\<close>, and the
  metadata fetch \<^verbatim>\<open>this.getMetadata\<close> of \<^verbatim>\<open>poll_\<close>.
\<close>

record reqOpts =
  req_method :: jsval
  req_uri :: string
  req_qs :: jsval

datatype api_call =
    BigQuery_request reqOpts
  | Job_request reqOpts
  | Job_getMetadata

text \<open>
  The state the code runs in: the objects by address, the next address an object literal
  takes, and the calls made to the collaborators so far, oldest first.
\<close>

record world =
  heap :: "addr \<Rightarrow> jsobj"
  next_addr :: addr
  sent :: "api_call list"

text \<open>An object literal \<^verbatim>\<open>{...}\<close> creates a new object.\<close>

definition new_object :: "jsobj \<Rightarrow> world \<Rightarrow> addr \<times> world" where
  "new_object props w =
     (next_addr w, w\<lparr>heap := (heap w)(next_addr w := props), next_addr := Suc (next_addr w)\<rparr>)"

text \<open>
  A property read \<^verbatim>\<open>v.k\<close> throws a TypeError on undefined and null. The properties read
  in this file (\<^verbatim>\<open>schema\<close>, \<^verbatim>\<open>rows\<close>, \<^verbatim>\<open>jobComplete\<close>, \<^verbatim>\<open>pageToken\<close>, \<^verbatim>\<open>status\<close>,
  \<^verbatim>\<open>errors\<close>, \<^verbatim>\<open>state\<close>, \<^verbatim>\<open>location\<close>) are undefined on a boolean, a number, a string
  and a function.
\<close>

datatype exn = TypeError | DecodeError

fun nullish :: "jsval \<Rightarrow> bool" where
  "nullish JUndefined = True"
| "nullish JNull = True"
| "nullish v = False"

fun get_prop :: "world \<Rightarrow> jsval \<Rightarrow> string \<Rightarrow> jsval" where
  "get_prop w (JRef a) k = heap w a k"
| "get_prop w v k = JUndefined"

text \<open>
  \<^verbatim>\<open>extend(target, source)\<close> of the npm package \<^verbatim>\<open>extend\<close>, which the file imports
  (shallow form, one source; \<^verbatim>\<open>extend(t, a, b)\<close> is this for \<^verbatim>\<open>a\<close>, then for \<^verbatim>\<open>b\<close>).
  The package is not part of the repository; this follows its published behaviour: the
  target is changed in place; each property of the source is written over the target's,
  except one whose value is undefined and one whose value is the target itself; a source
  that is null or undefined gives nothing. The sources in this file are objects,
  functions, null or undefined (a string source, whose characters the package would
  copy, is outside the model).
\<close>

definition extend_into :: "addr \<Rightarrow> jsval \<Rightarrow> world \<Rightarrow> world" where
  "extend_into target source w =
     (case source of
        JRef a \<Rightarrow>
          w\<lparr>heap := (heap w)(target :=
               (\<lambda>name. let copy = heap w a name
                       in if copy \<noteq> JRef target \<and> copy \<noteq> JUndefined then copy
                          else heap w target name))\<rparr>
      | _ \<Rightarrow> w)"

section \<open>The job handle\<close>

text \<open>
  The fields of \<^verbatim>\<open>Job\<close> that the methods below read: \<^verbatim>\<open>this.id\<close> and \<^verbatim>\<open>this.location\<close>.
  The constructor sets \<^verbatim>\<open>this.location\<close> only from a truthy \<^verbatim>\<open>options.location\<close>;
  otherwise reading it gives undefined.
\<close>

record job =
  job_id :: string
  location :: jsval

definition Job_new :: "string \<Rightarrow> jsval \<Rightarrow> world \<Rightarrow> job" where
  "Job_new ident options w =
     \<lparr>job_id = ident,
      location = (if truthy options \<and> truthy (get_prop w options ''location'')
                  then get_prop w options ''location'' else JUndefined)\<rparr>"

subsection \<open>\<^verbatim>\<open>getQueryResults\<close>\<close>

text \<open>
  A call of the callback: the function called, then \<^verbatim>\<open>err\<close>, \<^verbatim>\<open>rows\<close> (\<open>None\<close> is null),
  \<^verbatim>\<open>nextQuery\<close> and \<^verbatim>\<open>resp\<close>. The callback is a function (the promise wrapper supplies
  one when the caller gives none), so it is named by its number.
\<close>

datatype 'r query_callback =
  Callback (cb_fn: nat) (cb_err: jsval) (cb_rows: "'r list option") (cb_nextQuery: jsval)
    (cb_resp: jsval)

text \<open>
  \<^verbatim>\<open>this.bigQuery.mergeSchemaWithRows_\<close> is defined outside this file: it is a parameter,
  a function of the store, the schema and the raw rows that gives the decoded rows or
  throws.
\<close>

type_synonym 'r merger = "world \<Rightarrow> jsval \<Rightarrow> jsval \<Rightarrow> exn + 'r list"

text \<open>
  Lines 394 to 410: the callback-only form (\<^verbatim>\<open>is.fn(options)\<close> holds of the values
  \<open>JFun f\<close>), the location default and the one request. The result is the callback, the
  address of the new request object and the new state.
\<close>

definition getQueryResults_request ::
    "job \<Rightarrow> jsval \<Rightarrow> nat \<Rightarrow> world \<Rightarrow> nat \<times> addr \<times> world" where
  "getQueryResults_request this options callback w =
     (let (callback1, options1, w1) =
            (case options of
               JFun f \<Rightarrow> (let (e, w') = new_object no_props w in (f, JRef e, w'))
             | _ \<Rightarrow> (callback, options, w));
          (target, w2) = new_object (no_props(''location'' := location this)) w1;
          w3 = extend_into target options1 w2;
          w4 = w3\<lparr>sent := sent w3 @
                 [BigQuery_request
                    \<lparr>req_method = JUndefined,
                     req_uri = ''/queries/'' @ job_id this,
                     req_qs = JRef target\<rparr>]\<rparr>
      in (callback1, target, w4))"

text \<open>Lines 417 to 421: the rows.\<close>

definition decode_rows :: "'r merger \<Rightarrow> jsval \<Rightarrow> world \<Rightarrow> exn + 'r list" where
  "decode_rows mergeSchemaWithRows resp w =
     (if truthy (get_prop w resp ''schema'') \<and> truthy (get_prop w resp ''rows'')
      then mergeSchemaWithRows w (get_prop w resp ''schema'') (get_prop w resp ''rows'')
      else Inr [])"

text \<open>
  Lines 423 to 432: the cursor. In \<^verbatim>\<open>extend({}, options, {pageToken: resp.pageToken})\<close>
  the two object literals are created first, in this order.
\<close>

definition next_query :: "addr \<Rightarrow> jsval \<Rightarrow> world \<Rightarrow> jsval \<times> world" where
  "next_query options resp w =
     (if get_prop w resp ''jobComplete'' = JBool False then
        (let (n, w1) = new_object no_props w
         in (JRef n, extend_into n (JRef options) w1))
      else if truthy (get_prop w resp ''pageToken'') then
        (let (n, w1) = new_object no_props w;
             (p, w2) = new_object (no_props(''pageToken'' := get_prop w resp ''pageToken'')) w1
         in (JRef n, extend_into n (JRef p) (extend_into n (JRef options) w2)))
      else (JNull, w))"

text \<open>
  Lines 411 to 435: the function given to the transport, called with its \<^verbatim>\<open>err\<close> and
  \<^verbatim>\<open>resp\<close>. \<^verbatim>\<open>resp.schema\<close> is the first read of \<^verbatim>\<open>resp\<close>: it throws when \<^verbatim>\<open>resp\<close> is
  undefined or null.
\<close>

definition getQueryResults_response ::
    "'r merger \<Rightarrow> nat \<Rightarrow> addr \<Rightarrow> jsval \<Rightarrow> jsval \<Rightarrow> world \<Rightarrow> (exn + 'r query_callback) \<times> world" where
  "getQueryResults_response mergeSchemaWithRows callback options err resp w =
     (if truthy err then (Inr (Callback callback err None JNull resp), w)
      else if nullish resp then (Inl TypeError, w)
      else
        (case decode_rows mergeSchemaWithRows resp w of
           Inl e \<Rightarrow> (Inl e, w)
         | Inr rows \<Rightarrow>
             (let (nextQuery, w1) = next_query options resp w
              in (Inr (Callback callback JNull (Some rows) nextQuery resp), w1))))"

text \<open>
  The method as it is written at lines 393 to 437, one page fetch, for a transport that
  answers the request with \<open>(err, resp)\<close>. The objects of the answer are in the store when
  the method is called: the method only reads them. Line 486 installs the paginator over
  this method, so that a caller of \<^verbatim>\<open>job.getQueryResults\<close> reaches it through the driver
  \<open>paginated_getQueryResults\<close> below.
\<close>

definition getQueryResults ::
    "'r merger \<Rightarrow> job \<Rightarrow> jsval \<Rightarrow> nat \<Rightarrow> jsval \<times> jsval \<Rightarrow> world
       \<Rightarrow> (exn + 'r query_callback) \<times> world" where
  "getQueryResults mergeSchemaWithRows this options callback reply w =
     (let (callback1, target, w1) = getQueryResults_request this options callback w
      in getQueryResults_response mergeSchemaWithRows callback1 target (fst reply) (snd reply) w1)"

subsection \<open>The paginated method\<close>

text \<open>
  Modelled from the spec: the result of the pagination driver of section 4.3, which is
  what line 486 installs over the method and is not under \<^verbatim>\<open>src/\<close>. In manual mode the
  caller gets the call of the callback that the one page fetch makes (rows, cursor,
  response); with automatic pagination either all the rows and the last response, or the
  first error of a page fetch.
\<close>

fun the_rows :: "'r list option \<Rightarrow> 'r list" where
  "the_rows None = []"
| "the_rows (Some rows) = rows"

datatype 'r paged_callback =
    Page "'r query_callback"
  | All_rows nat "'r list" jsval
  | Page_error nat jsval

text \<open>
  Modelled from the spec: the optional numbers \<^verbatim>\<open>maxApiCalls\<close> and \<^verbatim>\<open>maxResults\<close> of a
  request (section 3), the budget of API calls and the cap on the results of section 4.3.
  A number that is not negative is a limit, anything else is no limit. The budget is
  exhausted when as many page fetches have been made; the cap is reached when as many
  rows have been accumulated, and the rows are truncated at it.
\<close>

fun limit_of :: "jsval \<Rightarrow> nat option" where
  "limit_of (JNum n) = (if 0 \<le> n then Some (nat n) else None)"
| "limit_of v = None"

definition budget_exhausted :: "nat option \<Rightarrow> nat \<Rightarrow> bool" where
  "budget_exhausted maxApiCalls calls =
     (case maxApiCalls of None \<Rightarrow> False | Some b \<Rightarrow> b \<le> calls)"

definition cap_reached :: "nat option \<Rightarrow> 'r list \<Rightarrow> bool" where
  "cap_reached maxResults rows =
     (case maxResults of None \<Rightarrow> False | Some c \<Rightarrow> c \<le> length rows)"

definition truncate_at :: "nat option \<Rightarrow> 'r list \<Rightarrow> 'r list" where
  "truncate_at maxResults rows =
     (case maxResults of None \<Rightarrow> rows | Some c \<Rightarrow> take c rows)"

text \<open>
  Modelled from the spec: the pagination driver that line 486,
  \<^verbatim>\<open>paginator.extend(Job, ['getQueryResults'])\<close>, installs over the method; the package
  \<^verbatim>\<open>@google-cloud/paginator\<close> is not under \<^verbatim>\<open>src/\<close>. Section 4.3 of the specification,
  automatic pagination: invoke the page fetch repeatedly, starting from the request,
  accumulating the decoded rows across the pages and following the returned cursor, until
  the cursor is null, or the budget of API calls is exhausted, or the cap on the results
  is reached (the rows are truncated at the cap); give the accumulated rows and the last
  response; fail on the first error of a page fetch, without the rows. The driver hands
  each request to the page fetch as it is. The transport's answers are a list, one for
  each request in turn; \<open>None\<close> says that a request was left without an answer. \<open>calls\<close>
  counts the page fetches made before this one.
\<close>

fun auto_paginate ::
    "'r merger \<Rightarrow> job \<Rightarrow> jsval \<Rightarrow> nat \<Rightarrow> nat option \<Rightarrow> nat option \<Rightarrow> nat \<Rightarrow> 'r list
       \<Rightarrow> (jsval \<times> jsval) list \<Rightarrow> world \<Rightarrow> ((exn + 'r paged_callback) \<times> world) option" where
  "auto_paginate mergeSchemaWithRows this request callback maxApiCalls maxResults calls acc
       [] w = None"
| "auto_paginate mergeSchemaWithRows this request callback maxApiCalls maxResults calls acc
       (reply # replies) w =
     (case getQueryResults mergeSchemaWithRows this request callback reply w of
        (Inl e, w1) \<Rightarrow> Some (Inl e, w1)
      | (Inr page, w1) \<Rightarrow>
          if truthy (cb_err page) then Some (Inr (Page_error (cb_fn page) (cb_err page)), w1)
          else if cap_reached maxResults (acc @ the_rows (cb_rows page)) then
            Some (Inr (All_rows (cb_fn page)
                         (truncate_at maxResults (acc @ the_rows (cb_rows page)))
                         (cb_resp page)), w1)
          else if cb_nextQuery page = JNull \<or> budget_exhausted maxApiCalls (Suc calls) then
            Some (Inr (All_rows (cb_fn page) (acc @ the_rows (cb_rows page)) (cb_resp page)),
                  w1)
          else auto_paginate mergeSchemaWithRows this (cb_nextQuery page) (cb_fn page)
                 maxApiCalls maxResults (Suc calls) (acc @ the_rows (cb_rows page)) replies w1)"

text \<open>
  Modelled from the spec: the two modes of section 4.3. With \<^verbatim>\<open>autoPaginate\<close> \<^verbatim>\<open>false\<close> the
  page fetch is invoked exactly once and what it gives (rows, cursor, response) goes to
  the caller; otherwise (automatic pagination is the default) the driver above runs, with
  the limits that the request sets.
\<close>

definition paginated_getQueryResults ::
    "'r merger \<Rightarrow> job \<Rightarrow> jsval \<Rightarrow> nat \<Rightarrow> (jsval \<times> jsval) list \<Rightarrow> world
       \<Rightarrow> ((exn + 'r paged_callback) \<times> world) option" where
  "paginated_getQueryResults mergeSchemaWithRows this options callback replies w =
     (if get_prop w options ''autoPaginate'' = JBool False then
        (case replies of
           [] \<Rightarrow> None
         | reply # _ \<Rightarrow>
             (case getQueryResults mergeSchemaWithRows this options callback reply w of
                (Inl e, w1) \<Rightarrow> Some (Inl e, w1)
              | (Inr page, w1) \<Rightarrow> Some (Inr (Page page), w1)))
      else auto_paginate mergeSchemaWithRows this options callback
             (limit_of (get_prop w options ''maxApiCalls''))
             (limit_of (get_prop w options ''maxResults'')) 0 [] replies w)"

subsection \<open>\<^verbatim>\<open>getQueryResultsAsStream_\<close>\<close>

text \<open>
  Line 446: the options that the method passes on to \<^verbatim>\<open>this.getQueryResults\<close>, and line
  447: the call, which reaches the paginated method. (A constant's name cannot end with
  an underscore: \<open>getQueryResultsAsStream\<close> is the method \<^verbatim>\<open>getQueryResultsAsStream_\<close>,
  and \<open>poll\<close> below is \<^verbatim>\<open>poll_\<close>.)
\<close>

definition getQueryResultsAsStream_options :: "jsval \<Rightarrow> world \<Rightarrow> addr \<times> world" where
  "getQueryResultsAsStream_options options w =
     (let (target, w1) = new_object (no_props(''autoPaginate'' := JBool False)) w
      in (target, extend_into target options w1))"

definition getQueryResultsAsStream ::
    "'r merger \<Rightarrow> job \<Rightarrow> jsval \<Rightarrow> nat \<Rightarrow> (jsval \<times> jsval) list \<Rightarrow> world
       \<Rightarrow> ((exn + 'r paged_callback) \<times> world) option" where
  "getQueryResultsAsStream mergeSchemaWithRows this options callback replies w =
     (let (options1, w1) = getQueryResultsAsStream_options options w
      in paginated_getQueryResults mergeSchemaWithRows this (JRef options1) callback replies w1)"

subsection \<open>\<^verbatim>\<open>cancel\<close>\<close>

text \<open>
  The callback goes to \<^verbatim>\<open>this.request\<close> as it is: it is called with what the transport
  answers, \<open>(err, apiResponse)\<close>.
\<close>

datatype cancel_callback = Cancel_callback (cc_fn: nat) (cc_err: jsval) (cc_resp: jsval)

definition cancel :: "job \<Rightarrow> nat \<Rightarrow> jsval \<times> jsval \<Rightarrow> world \<Rightarrow> cancel_callback \<times> world" where
  "cancel this callback reply w =
     (let (qs, w1) =
            (if truthy (location this)
             then (let (q, w') = new_object (no_props(''location'' := location this)) w
                   in (JRef q, w'))
             else (JUndefined, w));
          w2 = w1\<lparr>sent := sent w1 @
                 [Job_request
                    \<lparr>req_method = JStr ''POST'', req_uri = ''/cancel'', req_qs = qs\<rparr>]\<rparr>
      in (Cancel_callback callback (fst reply) (snd reply), w2))"

subsection \<open>\<^verbatim>\<open>poll_\<close>\<close>

text \<open>
  The four ways \<^verbatim>\<open>poll_\<close> calls its callback: \<^verbatim>\<open>callback(err)\<close> with the error of the
  metadata fetch, \<^verbatim>\<open>callback(err)\<close> with \<^verbatim>\<open>new util.ApiError(status)\<close>, \<^verbatim>\<open>callback()\<close>
  and \<^verbatim>\<open>callback(null, metadata)\<close>.
\<close>

datatype poll_callback =
    Poll_error jsval
  | Poll_ApiError jsval
  | Poll_incomplete
  | Poll_complete jsval

text \<open>
  Lines 463 to 465: \<^verbatim>\<open>apiResponse.status\<close> is read only when \<^verbatim>\<open>err\<close> is falsy, and
  throws when \<^verbatim>\<open>apiResponse\<close> is undefined or null.
\<close>

definition poll_error :: "jsval \<Rightarrow> jsval \<Rightarrow> world \<Rightarrow> exn + poll_callback option" where
  "poll_error err apiResponse w =
     (if truthy err then Inr (Some (Poll_error err))
      else if nullish apiResponse then Inl TypeError
      else if truthy (get_prop w apiResponse ''status'')
              \<and> truthy (get_prop w (get_prop w apiResponse ''status'') ''errors'')
      then Inr (Some (Poll_ApiError (get_prop w apiResponse ''status'')))
      else Inr None)"

text \<open>
  The function given to \<^verbatim>\<open>this.getMetadata\<close>, called with \<open>(err, metadata, apiResponse)\<close>.
  \<^verbatim>\<open>metadata.status.state\<close> throws when \<^verbatim>\<open>metadata\<close> or \<^verbatim>\<open>metadata.status\<close> is undefined
  or null.
\<close>

definition poll_response :: "jsval \<Rightarrow> jsval \<Rightarrow> jsval \<Rightarrow> world \<Rightarrow> exn + poll_callback" where
  "poll_response err metadata apiResponse w =
     (case poll_error err apiResponse w of
        Inl e \<Rightarrow> Inl e
      | Inr (Some failure) \<Rightarrow> Inr failure
      | Inr None \<Rightarrow>
          (if nullish metadata \<or> nullish (get_prop w metadata ''status'') then Inl TypeError
           else if get_prop w (get_prop w metadata ''status'') ''state'' \<noteq> JStr ''DONE''
           then Inr Poll_incomplete
           else Inr (Poll_complete metadata)))"

definition poll :: "jsval \<times> jsval \<times> jsval \<Rightarrow> world \<Rightarrow> (exn + poll_callback) \<times> world" where
  "poll reply w =
     (case reply of (err, metadata, apiResponse) \<Rightarrow>
        (let w1 = w\<lparr>sent := sent w @ [Job_getMetadata]\<rparr>
         in (poll_response err metadata apiResponse w1, w1)))"

section \<open>Values of the running program\<close>

text \<open>
  A reference held by the program is the address of an object that exists; the object
  literals of the methods take addresses that no value refers to yet.
\<close>

fun allocated :: "world \<Rightarrow> jsval \<Rightarrow> bool" where
  "allocated w (JRef a) = (a < next_addr w)"
| "allocated w v = True"

definition plain_object :: "world \<Rightarrow> addr \<Rightarrow> bool" where
  "plain_object w a = (a < next_addr w \<and> (\<forall>k. allocated w (heap w a k)))"

section \<open>The request of the specification\<close>

text \<open>
  The specification's words for the request that is sent: the caller's request, with
  \<^verbatim>\<open>location\<close> defaulted from the job handle when the request does not set it.
\<close>

definition spec_location_defaulted :: "jsobj \<Rightarrow> jsval \<Rightarrow> jsobj" where
  "spec_location_defaulted request loc =
     (\<lambda>k. if k = ''location'' \<and> request k = JUndefined then loc else request k)"

section \<open>Example states\<close>

text \<open>
  A store with a caller's options \<^verbatim>\<open>{autoPaginate: false}\<close> at 0, the responses
  \<^verbatim>\<open>{jobComplete: false}\<close> at 1 and \<^verbatim>\<open>{jobComplete: true, pageToken: 'tok'}\<close> at 2, job
  metadata \<^verbatim>\<open>{status: {state: 'DONE', errors: []}}\<close> at 3 (its status at 4, the array at
  5), the options \<^verbatim>\<open>{autoPaginate: true}\<close> at 6 and the response
  \<^verbatim>\<open>{jobComplete: true, schema: {}, rows: []}\<close> at 7 (its schema at 8, its rows at 9); a
  job handle in the location EU; and a decoder that gives the raw rows as one row.
\<close>

definition example_world :: world where
  "example_world =
     \<lparr>heap = (\<lambda>a. no_props)
        (0 := no_props(''autoPaginate'' := JBool False),
         1 := no_props(''jobComplete'' := JBool False),
         2 := no_props(''jobComplete'' := JBool True, ''pageToken'' := JStr ''tok''),
         3 := no_props(''status'' := JRef 4),
         4 := no_props(''state'' := JStr ''DONE'', ''errors'' := JRef 5),
         5 := no_props,
         6 := no_props(''autoPaginate'' := JBool True),
         7 := no_props(''jobComplete'' := JBool True, ''schema'' := JRef 8, ''rows'' := JRef 9),
         8 := no_props,
         9 := no_props),
      next_addr = 10, sent = []\<rparr>"

definition eu_job :: job where
  "eu_job = \<lparr>job_id = ''job-id'', location = JStr ''EU''\<rparr>"

definition example_merge :: "jsval merger" where
  "example_merge w schema rows = Inr [rows]"

section \<open>Facts about the store\<close>

lemmas run_defs =
  getQueryResults_request_def new_object_def extend_into_def no_props_def Let_def

lemma allocated_fresh: "allocated w v \<Longrightarrow> v \<noteq> JRef (next_addr w)"
  by (cases v) auto

lemma get_prop_heap: "heap w' = heap w \<Longrightarrow> get_prop w' v k = get_prop w v k"
  by (cases v) simp_all

lemma get_prop_sent [simp]: "get_prop (w\<lparr>sent := s\<rparr>) v k = get_prop w v k"
  by (cases v) simp_all

lemma Job_new_location:
  "truthy (location (Job_new ident options w)) =
     (location (Job_new ident options w) \<noteq> JUndefined)"
  by (auto simp: Job_new_def)

lemma getQueryResults_request_sent:
  "getQueryResults_request this options callback w = (cb, target, w1) \<Longrightarrow>
   sent w1 = sent w @ [BigQuery_request \<lparr>req_method = JUndefined,
                         req_uri = ''/queries/'' @ job_id this, req_qs = JRef target\<rparr>]"
  by (auto simp: getQueryResults_request_def new_object_def extend_into_def Let_def
           split: jsval.splits prod.splits)

lemma request_of_object:
  assumes "plain_object w a"
  shows "getQueryResults_request this (JRef a) cb w =
    (cb, next_addr w,
     w\<lparr>heap := (heap w)(next_addr w := spec_location_defaulted (heap w a) (location this)),
       next_addr := Suc (next_addr w),
       sent := sent w @ [BigQuery_request \<lparr>req_method = JUndefined,
                         req_uri = ''/queries/'' @ job_id this, req_qs = JRef (next_addr w)\<rparr>]\<rparr>)"
proof -
  from assms have a: "a < next_addr w" and v: "\<And>k. heap w a k \<noteq> JRef (next_addr w)"
    by (simp_all add: plain_object_def allocated_fresh)
  show ?thesis using a v
    by (auto simp: getQueryResults_request_def new_object_def extend_into_def Let_def
        no_props_def spec_location_defaulted_def fun_eq_iff)
qed

lemma next_query_copy:
  assumes "t < next_addr w" and "\<And>k. allocated w (heap w t k)"
    and "get_prop w resp ''jobComplete'' = JBool False
         \<or> allocated w (get_prop w resp ''pageToken'')"
  shows "next_query t resp w =
    (if get_prop w resp ''jobComplete'' = JBool False then
       (JRef (next_addr w),
        w\<lparr>heap := (heap w)(next_addr w := heap w t), next_addr := Suc (next_addr w)\<rparr>)
     else if truthy (get_prop w resp ''pageToken'') then
       (JRef (next_addr w),
        w\<lparr>heap := (heap w)
               (next_addr w := (heap w t)(''pageToken'' := get_prop w resp ''pageToken''),
                Suc (next_addr w) := no_props(''pageToken'' := get_prop w resp ''pageToken'')),
          next_addr := Suc (Suc (next_addr w))\<rparr>)
     else (JNull, w))"
proof -
  have v: "\<And>k. heap w t k \<noteq> JRef (next_addr w)"
    using assms(2) by (simp add: allocated_fresh)
  have p: "get_prop w resp ''jobComplete'' = JBool False
           \<or> get_prop w resp ''pageToken'' \<noteq> JRef (next_addr w)"
    using assms(3) by (auto simp: allocated_fresh)
  have u: "truthy (get_prop w resp ''pageToken'') \<Longrightarrow> get_prop w resp ''pageToken'' \<noteq> JUndefined"
    by auto
  show ?thesis using assms(1) v p u
    by (auto simp: next_query_def new_object_def extend_into_def Let_def no_props_def fun_eq_iff)
qed

lemma allocated_mono: "allocated w v \<Longrightarrow> next_addr w \<le> next_addr w' \<Longrightarrow> allocated w' v"
  by (cases v) auto

lemma getQueryResults_request_frame:
  assumes "getQueryResults_request this options callback w = (cb, target, w1)"
  shows "next_addr w \<le> target \<and> target < next_addr w1
         \<and> (\<forall>b. b < next_addr w \<longrightarrow> heap w1 b = heap w b)"
  using assms
  by (auto simp: getQueryResults_request_def new_object_def extend_into_def Let_def
           split: jsval.splits prod.splits)

lemma next_query_frame:
  assumes "next_query t resp w = (nq, w')"
  shows "sent w' = sent w \<and> next_addr w \<le> next_addr w'
         \<and> (\<forall>b. b < next_addr w \<longrightarrow> heap w' b = heap w b)
         \<and> (nq = JNull \<or> nq = JRef (next_addr w))"
  using assms
  by (auto simp: next_query_def new_object_def extend_into_def Let_def
           split: if_splits prod.splits)

lemma getQueryResults_response_frame:
  assumes "getQueryResults_response m cb t err resp w = (res, w')"
  shows "sent w' = sent w \<and> next_addr w \<le> next_addr w'
         \<and> (\<forall>b. b < next_addr w \<longrightarrow> heap w' b = heap w b)
         \<and> (\<forall>c. res = Inr c \<longrightarrow> cb_nextQuery c = JNull \<or> cb_nextQuery c = JRef (next_addr w))"
proof (cases "truthy err \<or> nullish resp")
  case True
  then show ?thesis using assms
    by (auto simp: getQueryResults_response_def split: if_splits)
next
  case False
  show ?thesis
  proof (cases "decode_rows m resp w")
    case (Inl e)
    then show ?thesis using assms False
      by (auto simp: getQueryResults_response_def)
  next
    case (Inr rows)
    obtain nq w2 where n: "next_query t resp w = (nq, w2)"
      by (cases "next_query t resp w") auto
    from assms False Inr n have "res = Inr (Callback cb JNull (Some rows) nq resp)" "w' = w2"
      by (auto simp: getQueryResults_response_def)
    then show ?thesis using next_query_frame [OF n] by auto
  qed
qed


lemma getQueryResults_frame:
  assumes "getQueryResults m this options callback reply w = (res, w')"
    and "getQueryResults_request this options callback w = (cb, target, w1)"
  shows "sent w' = sent w1 \<and> next_addr w1 \<le> next_addr w'
         \<and> (\<forall>b. b < next_addr w1 \<longrightarrow> heap w' b = heap w1 b)
         \<and> (\<forall>c. res = Inr c \<longrightarrow> cb_nextQuery c = JNull \<or> cb_nextQuery c = JRef (next_addr w1))"
proof -
  from assms have "getQueryResults_response m cb target (fst reply) (snd reply) w1 = (res, w')"
    by (simp add: getQueryResults_def)
  from getQueryResults_response_frame [OF this] show ?thesis .
qed

lemma get_prop_old:
  assumes "allocated w v" and "\<And>b. b < next_addr w \<Longrightarrow> heap w1 b = heap w b"
  shows "get_prop w1 v k = get_prop w v k"
  using assms by (cases v) simp_all

lemma getQueryResults_success:
  assumes p: "plain_object w a" and l: "allocated w (location this)"
    and r: "allocated w resp" and t: "get_prop w resp ''jobComplete'' = JBool False
            \<or> allocated w (get_prop w resp ''pageToken'')"
    and e: "\<not> truthy err" and n: "\<not> nullish resp"
    and q: "getQueryResults_request this (JRef a) callback w = (cb, target, w1)"
    and d: "decode_rows m resp w1 = Inr rows"
  shows "getQueryResults m this (JRef a) callback (err, resp) w =
     (if get_prop w resp ''jobComplete'' = JBool False then
        (Inr (Callback callback JNull (Some rows) (JRef (Suc (next_addr w))) resp),
         w1\<lparr>heap := (heap w1)(Suc (next_addr w) :=
                  spec_location_defaulted (heap w a) (location this)),
            next_addr := Suc (Suc (next_addr w))\<rparr>)
      else if truthy (get_prop w resp ''pageToken'') then
        (Inr (Callback callback JNull (Some rows) (JRef (Suc (next_addr w))) resp),
         w1\<lparr>heap := (heap w1)
                 (Suc (next_addr w) :=
                    (spec_location_defaulted (heap w a) (location this))
                      (''pageToken'' := get_prop w resp ''pageToken''),
                  Suc (Suc (next_addr w)) :=
                    no_props(''pageToken'' := get_prop w resp ''pageToken'')),
            next_addr := Suc (Suc (Suc (next_addr w)))\<rparr>)
      else (Inr (Callback callback JNull (Some rows) JNull resp), w1))"
proof -
  note ro = request_of_object [OF p, of this callback]
  from q ro have cb: "cb = callback" and tg: "target = next_addr w"
    and n1: "next_addr w1 = Suc (next_addr w)"
    and h1: "heap w1 (next_addr w) = spec_location_defaulted (heap w a) (location this)"
    by auto
  have old: "\<And>b. b < next_addr w \<Longrightarrow> heap w1 b = heap w b"
    using getQueryResults_request_frame [OF q] by simp
  have gp: "\<And>k. get_prop w1 resp k = get_prop w resp k"
    using r old by (rule get_prop_old)
  have le: "next_addr w \<le> next_addr w1" using n1 by simp
  have vals: "\<And>k. allocated w1 (heap w1 target k)"
  proof -
    fix k
    have "allocated w (spec_location_defaulted (heap w a) (location this) k)"
      using p l by (simp add: spec_location_defaulted_def plain_object_def)
    then show "allocated w1 (heap w1 target k)"
      using le tg h1 by (simp add: allocated_mono)
  qed
  have pt: "get_prop w1 resp ''jobComplete'' = JBool False
            \<or> allocated w1 (get_prop w1 resp ''pageToken'')"
    using t le gp by (auto simp: allocated_mono)
  have tl: "target < next_addr w1" using tg n1 by simp
  note nq = next_query_copy [OF tl vals pt]
  have "getQueryResults m this (JRef a) callback (err, resp) w =
        (let (nextQuery, w2) = next_query target resp w1
         in (Inr (Callback callback JNull (Some rows) nextQuery resp), w2))"
    using q e n d cb by (simp add: getQueryResults_def getQueryResults_response_def)
  then show ?thesis
    unfolding nq by (simp add: gp n1 tg h1)
qed


lemma getQueryResults_decode_throws:
  assumes "\<not> truthy err" and "\<not> nullish resp"
    and "getQueryResults_request this options callback w = (cb, target, w1)"
    and "decode_rows m resp w1 = Inl e"
  shows "getQueryResults m this options callback (err, resp) w = (Inl e, w1)"
  using assms by (simp add: getQueryResults_def getQueryResults_response_def)

lemma getQueryResults_decoded:
  assumes "\<not> truthy err" and "\<not> nullish resp"
    and "getQueryResults_request this options callback w = (cb, target, w1)"
    and "decode_rows m resp w1 = Inr rows"
  shows "\<exists>c. fst (getQueryResults m this options callback (err, resp) w) = Inr c
             \<and> cb_fn c = cb \<and> cb_err c = JNull \<and> cb_rows c = Some rows \<and> cb_resp c = resp"
  using assms
  by (cases "next_query target resp w1")
     (simp add: getQueryResults_def getQueryResults_response_def)

lemma spec_location_defaulted_same:
  "(spec_location_defaulted request loc = request) =
     (request ''location'' \<noteq> JUndefined \<or> loc = JUndefined)"
  by (auto simp: spec_location_defaulted_def fun_eq_iff)

lemma get_prop_nullish: "nullish v \<Longrightarrow> get_prop w v k = JUndefined"
  by (cases v) simp_all

lemma request_without_options:
  assumes "nullish options \<or> (\<exists>f. options = JFun f)"
    and "getQueryResults_request this options callback w = (cb, target, w1)"
  shows "heap w1 target = no_props(''location'' := location this)"
  using assms
  by (cases options)
     (auto simp: getQueryResults_request_def new_object_def extend_into_def Let_def
        no_props_def fun_eq_iff)

lemma request_target:
  assumes "getQueryResults_request this (JRef a) callback w = (cb, target, w1)"
  shows "cb = callback \<and> target = next_addr w"
  using assms
  by (auto simp: getQueryResults_request_def new_object_def Let_def)

lemma request_copies:
  assumes "a < next_addr w" and "allocated w (heap w a k)" and "heap w a k \<noteq> JUndefined"
    and "getQueryResults_request this (JRef a) callback w = (cb, target, w1)"
  shows "heap w1 target k = heap w a k"
  using assms allocated_fresh [OF assms(2)]
  by (auto simp: getQueryResults_request_def new_object_def extend_into_def Let_def)

lemma getQueryResults_last_page:
  assumes "\<not> truthy err" and "\<not> nullish resp" and "allocated w resp"
    and "get_prop w resp ''jobComplete'' \<noteq> JBool False"
    and "\<not> truthy (get_prop w resp ''pageToken'')"
    and "getQueryResults_request this options callback w = (cb, target, w1)"
    and "decode_rows m resp w1 = Inr rows"
  shows "getQueryResults m this options callback (err, resp) w =
           (Inr (Callback cb JNull (Some rows) JNull resp), w1)"
proof -
  have old: "\<And>b. b < next_addr w \<Longrightarrow> heap w1 b = heap w b"
    using getQueryResults_request_frame [OF assms(6)] by simp
  have gp: "\<And>k. get_prop w1 resp k = get_prop w resp k"
    using assms(3) old by (rule get_prop_old)
  have "next_query target resp w1 = (JNull, w1)"
    using assms(4,5) by (simp add: next_query_def gp)
  then show ?thesis
    using assms(1,2,6,7) by (simp add: getQueryResults_def getQueryResults_response_def)
qed

lemma auto_paginate_next:
  assumes "getQueryResults m this request callback reply w = (Inr page, w1)"
    and "\<not> truthy (cb_err page)" and "cb_nextQuery page \<noteq> JNull"
  shows "auto_paginate m this request callback None None calls acc (reply # replies) w =
         auto_paginate m this (cb_nextQuery page) (cb_fn page) None None (Suc calls)
           (acc @ the_rows (cb_rows page)) replies w1"
  using assms by (simp add: cap_reached_def budget_exhausted_def)

lemma auto_paginate_last:
  assumes "getQueryResults m this request callback reply w = (Inr page, w1)"
    and "\<not> truthy (cb_err page)" and "cb_nextQuery page = JNull"
  shows "auto_paginate m this request callback None None calls acc (reply # replies) w =
         Some (Inr (All_rows (cb_fn page) (acc @ the_rows (cb_rows page)) (cb_resp page)), w1)"
  using assms by (simp add: cap_reached_def)

section \<open>Error propagation of \<^verbatim>\<open>getQueryResults\<close>\<close>

text \<open>
  Claim C6. When the transport answers the results request with an error (a truthy
  \<^verbatim>\<open>err\<close>), \<^verbatim>\<open>getQueryResults\<close> calls the callback with that same error value, with null
  for the rows and null for the cursor, and with the response as it came; the state it
  leaves is the state right after the request was sent, so the one request to
  \<^verbatim>\<open>/queries/<id>\<close> is the only call made: nothing is retried. This holds for every
  options argument, every response and every decoder.
\<close>

theorem getQueryResults_error_verbatim:
  assumes "truthy err"
    and "getQueryResults_request this options callback w = (cb, target, w1)"
  shows "getQueryResults mergeSchemaWithRows this options callback (err, resp) w =
           (Inr (Callback cb err None JNull resp), w1)
         \<and> cb = (case options of JFun f \<Rightarrow> f | _ \<Rightarrow> callback)
         \<and> sent w1 = sent w @ [BigQuery_request \<lparr>req_method = JUndefined,
                                  req_uri = ''/queries/'' @ job_id this, req_qs = JRef target\<rparr>]"
proof -
  have "cb = (case options of JFun f \<Rightarrow> f | _ \<Rightarrow> callback)"
    using assms(2) by (auto simp: getQueryResults_request_def new_object_def Let_def
                     split: jsval.splits prod.splits)
  then show ?thesis
    using assms getQueryResults_request_sent [OF assms(2)]
    by (simp add: getQueryResults_def getQueryResults_response_def)
qed

theorem getQueryResults_error_verbatim_witness:
  "truthy (JStr ''ECONNRESET'') \<and>
   getQueryResults example_merge eu_job (JRef 0) 9 (JStr ''ECONNRESET'', JUndefined)
          example_world =
     (Inr (Callback 9 (JStr ''ECONNRESET'') None JNull JUndefined),
      snd (snd (getQueryResults_request eu_job (JRef 0) 9 example_world))) \<and>
   sent (snd (snd (getQueryResults_request eu_job (JRef 0) 9 example_world))) =
     [BigQuery_request \<lparr>req_method = JUndefined, req_uri = ''/queries/job-id'',
        req_qs = JRef 10\<rparr>]"
proof -
  have t: "truthy (JStr ''ECONNRESET'')" by simp
  have r: "getQueryResults_request eu_job (JRef 0) 9 example_world =
            (9, 10, snd (snd (getQueryResults_request eu_job (JRef 0) 9 example_world)))"
    by (simp add: run_defs example_world_def)
  show ?thesis
    using getQueryResults_error_verbatim [OF t r, of example_merge JUndefined]
    by (simp add: example_world_def eu_job_def)
qed

section \<open>The request that \<^verbatim>\<open>getQueryResults\<close> sends\<close>

text \<open>
  Claim C7, as the code has it. One run of the method at lines 393 to 437, a page fetch,
  makes exactly one call to a collaborator, whatever the options and whatever the
  transport answers: the request to \<^verbatim>\<open>/queries/<id>\<close>, whose query string is a new object.
  For an options object it holds the request with the location default of the
  specification: its \<^verbatim>\<open>location\<close> is the job handle's when the request sets none, and the
  request's own when it sets one. Without options (none given, or only the callback) it
  holds the job handle's location and nothing else. An invocation of the paginated method
  with \<^verbatim>\<open>autoPaginate\<close> \<^verbatim>\<open>false\<close> is one page fetch, so it issues exactly that one request.
\<close>

theorem getQueryResults_one_request:
  assumes "getQueryResults_request this options callback w = (cb, target, w1)"
    and "getQueryResults mergeSchemaWithRows this options callback reply w = (res, w')"
  shows "sent w' = sent w @ [BigQuery_request \<lparr>req_method = JUndefined,
                               req_uri = ''/queries/'' @ job_id this,
                               req_qs = JRef target\<rparr>]
       \<and> (\<forall>a. options = JRef a \<and> plain_object w a \<longrightarrow>
            heap w' target = spec_location_defaulted (heap w a) (location this)
            \<and> (heap w a ''location'' = JUndefined \<longrightarrow>
                 heap w' target ''location'' = location this)
            \<and> (heap w a ''location'' \<noteq> JUndefined \<longrightarrow>
                 heap w' target ''location'' = heap w a ''location''))
       \<and> (nullish options \<or> (\<exists>f. options = JFun f) \<longrightarrow>
            heap w' target = no_props(''location'' := location this))
       \<and> (get_prop w options ''autoPaginate'' = JBool False \<longrightarrow>
            paginated_getQueryResults mergeSchemaWithRows this options callback
                (reply # replies) w =
              Some (case res of Inl e \<Rightarrow> Inl e | Inr page \<Rightarrow> Inr (Page page), w'))"
proof -
  note f = getQueryResults_frame [OF assms(2,1)]
  note rf = getQueryResults_request_frame [OF assms(1)]
  have s: "sent w' = sent w @ [BigQuery_request \<lparr>req_method = JUndefined,
                               req_uri = ''/queries/'' @ job_id this,
                               req_qs = JRef target\<rparr>]"
    using f getQueryResults_request_sent [OF assms(1)] by simp
  have h: "heap w' target = heap w1 target"
    using f rf by simp
  have o: "\<forall>a. options = JRef a \<and> plain_object w a \<longrightarrow>
            heap w' target = spec_location_defaulted (heap w a) (location this)
            \<and> (heap w a ''location'' = JUndefined \<longrightarrow>
                 heap w' target ''location'' = location this)
            \<and> (heap w a ''location'' \<noteq> JUndefined \<longrightarrow>
                 heap w' target ''location'' = heap w a ''location'')"
  proof (intro allI impI)
    fix a assume a: "options = JRef a \<and> plain_object w a"
    then have p: "plain_object w a" and oa: "options = JRef a" by simp_all
    from assms(1) request_of_object [OF p, of this callback] oa
    have "heap w1 target = spec_location_defaulted (heap w a) (location this)"
      by auto
    then have e: "heap w' target = spec_location_defaulted (heap w a) (location this)"
      using h by simp
    show "heap w' target = spec_location_defaulted (heap w a) (location this)
            \<and> (heap w a ''location'' = JUndefined \<longrightarrow>
                 heap w' target ''location'' = location this)
            \<and> (heap w a ''location'' \<noteq> JUndefined \<longrightarrow>
                 heap w' target ''location'' = heap w a ''location'')"
      unfolding e by (simp add: spec_location_defaulted_def)
  qed
  have n: "nullish options \<or> (\<exists>f. options = JFun f) \<longrightarrow>
            heap w' target = no_props(''location'' := location this)"
    using request_without_options [OF _ assms(1)] h by simp
  have m: "get_prop w options ''autoPaginate'' = JBool False \<longrightarrow>
            paginated_getQueryResults mergeSchemaWithRows this options callback
                (reply # replies) w =
              Some (case res of Inl e \<Rightarrow> Inl e | Inr page \<Rightarrow> Inr (Page page), w')"
    using assms(2) by (cases res) (simp_all add: paginated_getQueryResults_def)
  show ?thesis using s o n m by (intro conjI)
qed

text \<open>
  The claim as the specification words it, with exactly one request for every invocation
  of \<^verbatim>\<open>getQueryResults\<close>, fails for the paginated method that callers reach: automatic
  pagination is the default, and it issues one request for each page. For the request
  \<^verbatim>\<open>{}\<close>, which does not set \<^verbatim>\<open>autoPaginate\<close>, and a first response that carries a page
  token, two requests are sent: the second has the cursor's properties, the job handle's
  location and the page token.
\<close>

theorem getQueryResults_one_request_counterexample:
  "get_prop example_world (JRef 8) ''autoPaginate'' = JUndefined
   \<and> fst (the (paginated_getQueryResults example_merge eu_job (JRef 8) 9
                 [(JNull, JRef 2), (JNull, JRef 7)] example_world)) =
       Inr (All_rows 9 [JRef 9] (JRef 7))
   \<and> sent (snd (the (paginated_getQueryResults example_merge eu_job (JRef 8) 9
                       [(JNull, JRef 2), (JNull, JRef 7)] example_world))) =
       [BigQuery_request \<lparr>req_method = JUndefined, req_uri = ''/queries/job-id'',
          req_qs = JRef 10\<rparr>,
        BigQuery_request \<lparr>req_method = JUndefined, req_uri = ''/queries/job-id'',
          req_qs = JRef 13\<rparr>]
   \<and> heap (snd (the (paginated_getQueryResults example_merge eu_job (JRef 8) 9
                       [(JNull, JRef 2), (JNull, JRef 7)] example_world))) 13 ''pageToken'' =
       JStr ''tok''
   \<and> length (sent (snd (the (paginated_getQueryResults example_merge eu_job (JRef 8) 9
                       [(JNull, JRef 2), (JNull, JRef 7)] example_world)))) \<noteq> 1"
proof -
  let ?P = "paginated_getQueryResults example_merge eu_job (JRef 8) 9
              [(JNull, JRef 2), (JNull, JRef 7)] example_world"
  let ?G1 = "getQueryResults example_merge eu_job (JRef 8) 9 (JNull, JRef 2) example_world"
  let ?W1 = "snd ?G1"
  let ?X2 = "getQueryResults_request eu_job (JRef 11) 9 ?W1"
  let ?W2 = "snd (snd ?X2)"
  have a: "get_prop example_world (JRef 8) ''autoPaginate'' = JUndefined" by code_simp
  have lim: "limit_of (get_prop example_world (JRef 8) ''maxApiCalls'') = None"
      "limit_of (get_prop example_world (JRef 8) ''maxResults'') = None" by code_simp+
  have f1: "fst ?G1 = Inr (Callback 9 JNull (Some []) (JRef 11) (JRef 2))" by code_simp
  then have g1: "?G1 = (Inr (Callback 9 JNull (Some []) (JRef 11) (JRef 2)), ?W1)"
    by (simp add: prod_eq_iff)
  have n1: "next_addr ?W1 = 13" by code_simp
  have s1: "sent ?W1 = [BigQuery_request \<lparr>req_method = JUndefined,
              req_uri = ''/queries/job-id'', req_qs = JRef 10\<rparr>]" by code_simp
  have t1: "heap ?W1 11 ''pageToken'' = JStr ''tok''" by code_simp
  have r7: "allocated ?W1 (JRef 7)" "get_prop ?W1 (JRef 7) ''jobComplete'' \<noteq> JBool False"
      "\<not> truthy (get_prop ?W1 (JRef 7) ''pageToken'')" by code_simp+
  have x2: "?X2 = (fst ?X2, fst (snd ?X2), ?W2)" by simp
  note tg = request_target [OF x2]
  have old: "\<And>b. b < next_addr ?W1 \<Longrightarrow> heap ?W2 b = heap ?W1 b"
    using getQueryResults_request_frame [OF x2] by simp
  have gp: "\<And>k. get_prop ?W2 (JRef 7) k = get_prop ?W1 (JRef 7) k"
    using r7(1) old by (rule get_prop_old)
  have sr: "get_prop ?W1 (JRef 7) ''schema'' = JRef 8" "get_prop ?W1 (JRef 7) ''rows'' = JRef 9"
    by code_simp+
  have d2: "decode_rows example_merge (JRef 7) ?W2 = Inr [JRef 9]"
    by (simp only: decode_rows_def gp sr example_merge_def truthy.simps simp_thms if_True)
  have g2: "getQueryResults example_merge eu_job (JRef 11) 9 (JNull, JRef 7) ?W1 =
              (Inr (Callback 9 JNull (Some [JRef 9]) JNull (JRef 7)), ?W2)"
    using getQueryResults_last_page [OF _ _ r7 x2 d2, of JNull] tg by simp
  have p: "?P = Some (Inr (All_rows 9 [JRef 9] (JRef 7)), ?W2)"
    unfolding paginated_getQueryResults_def a lim
    using auto_paginate_next [OF g1, of 0 "[]" "[(JNull, JRef 7)]"]
      auto_paginate_last [OF g2, of "Suc 0" "[]" "[]"]
    by simp
  have s2: "sent ?W2 = [BigQuery_request \<lparr>req_method = JUndefined,
              req_uri = ''/queries/job-id'', req_qs = JRef 10\<rparr>,
            BigQuery_request \<lparr>req_method = JUndefined,
              req_uri = ''/queries/job-id'', req_qs = JRef 13\<rparr>]"
    using getQueryResults_request_sent [OF x2] tg s1 n1 by (simp add: eu_job_def)
  have al: "allocated ?W1 (heap ?W1 11 ''pageToken'')" unfolding t1 by simp
  have lt: "11 < next_addr ?W1" unfolding n1 by simp
  have ne: "heap ?W1 11 ''pageToken'' \<noteq> JUndefined" unfolding t1 by simp
  have t2: "heap ?W2 13 ''pageToken'' = JStr ''tok''"
    using request_copies [OF lt al ne x2] tg n1 t1 by simp
  have l: "length (sent ?W2) \<noteq> 1" unfolding s2 by simp
  show ?thesis unfolding p using a s2 t2 l by simp
qed

theorem getQueryResults_one_request_witness:
  "plain_object example_world 0
   \<and> sent (snd (getQueryResults example_merge eu_job (JRef 0) 9 (JNull, JRef 2) example_world))
       = [BigQuery_request \<lparr>req_method = JUndefined, req_uri = ''/queries/job-id'',
            req_qs = JRef 10\<rparr>]
   \<and> heap example_world 0 ''location'' = JUndefined
   \<and> heap (snd (getQueryResults example_merge eu_job (JRef 0) 9 (JNull, JRef 2) example_world)) 10
       ''location'' = JStr ''EU''
   \<and> get_prop example_world (JRef 0) ''autoPaginate'' = JBool False
   \<and> paginated_getQueryResults example_merge eu_job (JRef 0) 9
         [(JNull, JRef 2), (JNull, JRef 7)] example_world =
       Some (Inr (Page (Callback 9 JNull (Some []) (JRef 11) (JRef 2))),
             snd (getQueryResults example_merge eu_job (JRef 0) 9 (JNull, JRef 2)
                    example_world))"
proof -
  let ?X = "getQueryResults_request eu_job (JRef 0) 9 example_world"
  let ?G = "getQueryResults example_merge eu_job (JRef 0) 9 (JNull, JRef 2) example_world"
  have p: "plain_object example_world 0"
    by (simp add: plain_object_def example_world_def no_props_def)
  have q: "?X = (fst ?X, fst (snd ?X), snd (snd ?X))" by simp
  have n: "fst (snd ?X) = 10" "sent example_world = []"
      "job_id eu_job = ''job-id''" "location eu_job = JStr ''EU''"
    by code_simp+
  have u: "heap example_world 0 ''location'' = JUndefined"
    by code_simp
  have m: "get_prop example_world (JRef 0) ''autoPaginate'' = JBool False"
    by code_simp
  have r: "fst ?G = Inr (Callback 9 JNull (Some []) (JRef 11) (JRef 2))"
    by code_simp
  note t = getQueryResults_one_request
             [OF q surjective_pairing [of ?G], of "[(JNull, JRef 7)]", unfolded n]
  note s = t [THEN conjunct1, simplified]
  note l = t [THEN conjunct2, THEN conjunct1, rule_format, OF conjI, OF refl p,
              THEN conjunct2, THEN conjunct1, rule_format, OF u]
  note g = t [THEN conjunct2, THEN conjunct2, THEN conjunct2, rule_format, OF m,
              unfolded r, simplified]
  show ?thesis
    using p s u l m g by (intro conjI)
qed

section \<open>The caller's options object\<close>

text \<open>
  Claim C10. \<^verbatim>\<open>getQueryResults\<close> does not change the caller's options object: after the
  call, whatever the transport answers, the object has the properties it had, and so has
  every other object that existed before the call (no \<^verbatim>\<open>pageToken\<close> and no \<^verbatim>\<open>location\<close>
  is written into it). The query string of the request that is sent and the cursor given
  to the callback are other objects than the caller's.
\<close>

theorem getQueryResults_keeps_options:
  assumes "a < next_addr w"
    and "getQueryResults mergeSchemaWithRows this (JRef a) callback reply w = (res, w')"
  shows "heap w' a = heap w a
         \<and> (\<forall>b. b < next_addr w \<longrightarrow> heap w' b = heap w b)
         \<and> (\<forall>r. BigQuery_request r \<in> set (sent w') - set (sent w) \<longrightarrow> req_qs r \<noteq> JRef a)
         \<and> (\<forall>c. res = Inr c \<longrightarrow> cb_nextQuery c \<noteq> JRef a)"
proof -
  obtain cb target w1 where r: "getQueryResults_request this (JRef a) callback w = (cb, target, w1)"
    by (cases "getQueryResults_request this (JRef a) callback w") auto
  note f1 = getQueryResults_request_frame [OF r]
  note f2 = getQueryResults_frame [OF assms(2) r]
  note s = getQueryResults_request_sent [OF r]
  have old: "\<forall>b. b < next_addr w \<longrightarrow> heap w' b = heap w b"
    using f1 f2 by auto
  have qs: "\<forall>r. BigQuery_request r \<in> set (sent w') - set (sent w) \<longrightarrow> req_qs r \<noteq> JRef a"
    using f1 f2 s assms(1) by auto
  have nq: "\<forall>c. res = Inr c \<longrightarrow> cb_nextQuery c \<noteq> JRef a"
    using f1 f2 assms(1) by auto
  show ?thesis using old qs nq assms(1) by simp
qed

theorem getQueryResults_keeps_options_witness:
  "(0::nat) < next_addr example_world
   \<and> fst (getQueryResults example_merge eu_job (JRef 0) 9 (JNull, JRef 2) example_world) =
       Inr (Callback 9 JNull (Some []) (JRef 11) (JRef 2))
   \<and> heap (snd (getQueryResults example_merge eu_job (JRef 0) 9 (JNull, JRef 2) example_world)) 0
       = heap example_world 0
   \<and> heap example_world 0 ''location'' = JUndefined
   \<and> heap example_world 0 ''pageToken'' = JUndefined"
proof -
  have a: "(0::nat) < next_addr example_world" by code_simp
  have f: "fst (getQueryResults example_merge eu_job (JRef 0) 9 (JNull, JRef 2)
              example_world) = Inr (Callback 9 JNull (Some []) (JRef 11) (JRef 2))"
    by code_simp
  have u: "heap example_world 0 ''location'' = JUndefined"
      "heap example_world 0 ''pageToken'' = JUndefined"
    by code_simp+
  note t = getQueryResults_keeps_options
    [where mergeSchemaWithRows = example_merge and this = eu_job and callback = 9
       and reply = "(JNull, JRef 2)", OF a surjective_pairing, THEN conjunct1]
  show ?thesis
    using a f u t by (intro conjI)
qed

section \<open>The cursor\<close>

text \<open>
  Claim C1. Take a call with an options object whose request is answered without an
  error by a response whose rows decode. The callback is called with a cursor that is
  decided by the response alone, in this order. If \<^verbatim>\<open>jobComplete\<close> is \<^verbatim>\<open>false\<close>, the
  cursor is a new object with the properties of the request that was sent, which is the
  caller's request with the location default. Otherwise, if the response carries a page
  token (the test of the code: \<^verbatim>\<open>resp.pageToken\<close> is truthy, so an empty string counts as
  no token), the cursor is a new object with the properties of the request that was
  sent and \<^verbatim>\<open>pageToken\<close> set to the response's token. Otherwise the cursor is null. The
  three conditions exclude each other and one of them holds, so every response has
  exactly one of the three outcomes.
\<close>

theorem getQueryResults_cursor:
  assumes "plain_object w a" and "allocated w (location this)"
    and "allocated w resp"
    and "get_prop w resp ''jobComplete'' = JBool False
         \<or> allocated w (get_prop w resp ''pageToken'')"
    and "\<not> truthy err" and "\<not> nullish resp"
    and "getQueryResults_request this (JRef a) callback w = (cb, target, w1)"
    and "decode_rows mergeSchemaWithRows resp w1 = Inr rows"
    and "getQueryResults mergeSchemaWithRows this (JRef a) callback (err, resp) w = (res, w')"
  shows "heap w' target = spec_location_defaulted (heap w a) (location this)
       \<and> (get_prop w resp ''jobComplete'' = JBool False \<longrightarrow>
            res = Inr (Callback callback JNull (Some rows) (JRef (Suc target)) resp)
            \<and> heap w' (Suc target) = heap w' target)
       \<and> (get_prop w resp ''jobComplete'' \<noteq> JBool False
            \<and> truthy (get_prop w resp ''pageToken'') \<longrightarrow>
            res = Inr (Callback callback JNull (Some rows) (JRef (Suc target)) resp)
            \<and> heap w' (Suc target) =
                (heap w' target)(''pageToken'' := get_prop w resp ''pageToken''))
       \<and> (get_prop w resp ''jobComplete'' \<noteq> JBool False
            \<and> \<not> truthy (get_prop w resp ''pageToken'') \<longrightarrow>
            res = Inr (Callback callback JNull (Some rows) JNull resp))"
proof -
  note ro = request_of_object [OF assms(1), of this callback]
  from assms(7) ro have tg: "target = next_addr w"
    and h1: "heap w1 (next_addr w) = spec_location_defaulted (heap w a) (location this)"
    by auto
  note s = getQueryResults_success [OF assms(1-8)]
  show ?thesis
    using assms(9) h1 unfolding s tg
    by (auto split: if_splits)
qed



theorem getQueryResults_cursor_witness:
  "plain_object example_world 0 \<and> \<not> truthy JNull \<and> \<not> nullish (JRef 2)
   \<and> get_prop example_world (JRef 2) ''jobComplete'' \<noteq> JBool False
   \<and> truthy (get_prop example_world (JRef 2) ''pageToken'')
   \<and> fst (getQueryResults example_merge eu_job (JRef 0) 9 (JNull, JRef 2) example_world) =
       Inr (Callback 9 JNull (Some []) (JRef 11) (JRef 2))
   \<and> heap (snd (getQueryResults example_merge eu_job (JRef 0) 9 (JNull, JRef 2) example_world)) 11 =
       (heap (snd (getQueryResults example_merge eu_job (JRef 0) 9 (JNull, JRef 2) example_world)) 10)
         (''pageToken'' := JStr ''tok'')"
proof -
  let ?X = "getQueryResults_request eu_job (JRef 0) 9 example_world"
  let ?G = "getQueryResults example_merge eu_job (JRef 0) 9 (JNull, JRef 2) example_world"
  have p: "plain_object example_world 0"
    by (simp add: plain_object_def example_world_def no_props_def)
  have l: "allocated example_world (location eu_job)" by code_simp
  have r: "allocated example_world (JRef 2)" by code_simp
  have c: "get_prop example_world (JRef 2) ''jobComplete'' \<noteq> JBool False
           \<and> truthy (get_prop example_world (JRef 2) ''pageToken'')" by code_simp
  have t: "get_prop example_world (JRef 2) ''jobComplete'' = JBool False
           \<or> allocated example_world (get_prop example_world (JRef 2) ''pageToken'')"
    by code_simp
  have e: "\<not> truthy JNull" and n: "\<not> nullish (JRef 2)" by simp_all
  have q: "?X = (fst ?X, fst (snd ?X), snd (snd ?X))" by simp
  have d: "decode_rows example_merge (JRef 2) (snd (snd ?X)) = Inr []" by code_simp
  have v: "fst (snd ?X) = 10" "get_prop example_world (JRef 2) ''pageToken'' = JStr ''tok''"
    by code_simp+
  have s: "Suc 10 = 11" by simp
  note th = getQueryResults_cursor [OF p l r t e n q d surjective_pairing [of ?G]]
  from th c have
    "fst ?G = Inr (Callback 9 JNull (Some []) (JRef (Suc (fst (snd ?X)))) (JRef 2))
     \<and> heap (snd ?G) (Suc (fst (snd ?X))) =
         (heap (snd ?G) (fst (snd ?X)))
           (''pageToken'' := get_prop example_world (JRef 2) ''pageToken'')"
    by blast
  then have "fst ?G = Inr (Callback 9 JNull (Some []) (JRef 11) (JRef 2))
     \<and> heap (snd ?G) 11 = (heap (snd ?G) 10)(''pageToken'' := JStr ''tok'')"
    by (simp only: v s)
  then show ?thesis
    using p e n c by blast
qed

text \<open>
  Claim C3, as the code has it. For a request with \<^verbatim>\<open>autoPaginate: false\<close> whose response
  has \<^verbatim>\<open>jobComplete\<close> \<^verbatim>\<open>false\<close> (fetched without an error, its rows decoded), the
  callback gets the rows and a cursor that is not null: a new object with the properties
  of the request that was sent, the caller's request with the location default. It has
  the properties of the caller's request exactly when that request sets a location or
  the job handle has none.
\<close>

theorem getQueryResults_retry_cursor:
  assumes "plain_object w a" and "allocated w (location this)" and "allocated w resp"
    and "\<not> truthy err"
    and "heap w a ''autoPaginate'' = JBool False"
    and "get_prop w resp ''jobComplete'' = JBool False"
    and "getQueryResults_request this (JRef a) callback w = (cb, target, w1)"
    and "decode_rows mergeSchemaWithRows resp w1 = Inr rows"
    and "getQueryResults mergeSchemaWithRows this (JRef a) callback (err, resp) w = (res, w')"
  shows "res = Inr (Callback callback JNull (Some rows) (JRef (Suc target)) resp)
       \<and> heap w' (Suc target) = spec_location_defaulted (heap w a) (location this)
       \<and> ((heap w' (Suc target) = heap w a) =
            (heap w a ''location'' \<noteq> JUndefined \<or> location this = JUndefined))"
proof -
  have n: "\<not> nullish resp"
    using assms(6) get_prop_nullish [of resp w "''jobComplete''"] by auto
  have t: "get_prop w resp ''jobComplete'' = JBool False
           \<or> allocated w (get_prop w resp ''pageToken'')"
    using assms(6) by simp
  note ro = request_of_object [OF assms(1), of this callback]
  from assms(7) ro have tg: "target = next_addr w" by auto
  note s = getQueryResults_success [OF assms(1-3) t assms(4) n assms(7,8)]
  have "res = Inr (Callback callback JNull (Some rows) (JRef (Suc target)) resp)"
    and "heap w' (Suc target) = spec_location_defaulted (heap w a) (location this)"
    using assms(9,6) unfolding s tg by auto
  then show ?thesis
    by (simp add: spec_location_defaulted_same)
qed

text \<open>
  The claim as the specification words it, with the cursor equal to the caller's request
  also when the job handle has a location that the request does not set, fails: for the
  handle in EU and the request \<^verbatim>\<open>{autoPaginate: false}\<close>, the cursor is
  \<^verbatim>\<open>{location: 'EU', autoPaginate: false}\<close>.
\<close>

theorem getQueryResults_retry_cursor_counterexample:
  "heap example_world 0 ''autoPaginate'' = JBool False
   \<and> get_prop example_world (JRef 1) ''jobComplete'' = JBool False
   \<and> fst (getQueryResults example_merge eu_job (JRef 0) 9 (JNull, JRef 1) example_world) =
       Inr (Callback 9 JNull (Some []) (JRef 11) (JRef 1))
   \<and> heap (snd (getQueryResults example_merge eu_job (JRef 0) 9 (JNull, JRef 1) example_world)) 11
        ''location'' = JStr ''EU''
   \<and> heap example_world 0 ''location'' = JUndefined
   \<and> heap (snd (getQueryResults example_merge eu_job (JRef 0) 9 (JNull, JRef 1) example_world)) 11
        \<noteq> heap example_world 0"
proof -
  let ?G = "getQueryResults example_merge eu_job (JRef 0) 9 (JNull, JRef 1) example_world"
  have a: "heap example_world 0 ''autoPaginate'' = JBool False" by code_simp
  have j: "get_prop example_world (JRef 1) ''jobComplete'' = JBool False" by code_simp
  have f: "fst ?G = Inr (Callback 9 JNull (Some []) (JRef 11) (JRef 1))" by code_simp
  have c: "heap (snd ?G) 11 ''location'' = JStr ''EU''" by code_simp
  have o: "heap example_world 0 ''location'' = JUndefined" by code_simp
  have d: "heap (snd ?G) 11 \<noteq> heap example_world 0"
  proof
    assume "heap (snd ?G) 11 = heap example_world 0"
    then have "heap (snd ?G) 11 ''location'' = heap example_world 0 ''location''" by simp
    then show False unfolding c o by simp
  qed
  show ?thesis using a j f c o d by blast
qed

theorem getQueryResults_retry_cursor_witness:
  "plain_object example_world 0 \<and> \<not> truthy JNull
   \<and> heap example_world 0 ''autoPaginate'' = JBool False
   \<and> get_prop example_world (JRef 1) ''jobComplete'' = JBool False
   \<and> fst (getQueryResults example_merge eu_job (JRef 0) 9 (JNull, JRef 1) example_world) =
       Inr (Callback 9 JNull (Some []) (JRef 11) (JRef 1))
   \<and> heap (snd (getQueryResults example_merge eu_job (JRef 0) 9 (JNull, JRef 1) example_world)) 11 =
       spec_location_defaulted (heap example_world 0) (JStr ''EU'')"
proof -
  let ?X = "getQueryResults_request eu_job (JRef 0) 9 example_world"
  let ?G = "getQueryResults example_merge eu_job (JRef 0) 9 (JNull, JRef 1) example_world"
  have p: "plain_object example_world 0"
    by (simp add: plain_object_def example_world_def no_props_def)
  have l: "allocated example_world (location eu_job)" by code_simp
  have r: "allocated example_world (JRef 1)" by code_simp
  have e: "\<not> truthy JNull" by simp
  have a: "heap example_world 0 ''autoPaginate'' = JBool False" by code_simp
  have j: "get_prop example_world (JRef 1) ''jobComplete'' = JBool False" by code_simp
  have q: "?X = (fst ?X, fst (snd ?X), snd (snd ?X))" by simp
  have d: "decode_rows example_merge (JRef 1) (snd (snd ?X)) = Inr []" by code_simp
  have v: "fst (snd ?X) = 10" "location eu_job = JStr ''EU''" by code_simp+
  have s: "Suc 10 = 11" by simp
  note th = getQueryResults_retry_cursor [OF p l r e a j q d surjective_pairing [of ?G]]
  from th have
    "fst ?G = Inr (Callback 9 JNull (Some []) (JRef (Suc (fst (snd ?X)))) (JRef 1))
     \<and> heap (snd ?G) (Suc (fst (snd ?X))) =
         spec_location_defaulted (heap example_world 0) (location eu_job)"
    by blast
  then have "fst ?G = Inr (Callback 9 JNull (Some []) (JRef 11) (JRef 1))
     \<and> heap (snd ?G) 11 = spec_location_defaulted (heap example_world 0) (JStr ''EU'')"
    by (simp only: v s)
  then show ?thesis
    using p e a j by blast
qed


section \<open>The rows\<close>

text \<open>
  Claim C5. When the request is answered without an error: if the response has both a
  schema and rows (both truthy), the rows given to the callback are what
  \<^verbatim>\<open>mergeSchemaWithRows_\<close> makes of that schema and those rows (and what it throws is
  thrown); if either is missing, the callback is called without an error and with the
  empty list of rows, and the decoder's result is not used.
\<close>

theorem getQueryResults_rows:
  assumes "\<not> truthy err" and "\<not> nullish resp" and "allocated w resp"
    and "getQueryResults_request this options callback w = (cb, target, w1)"
  shows "(truthy (get_prop w resp ''schema'') \<and> truthy (get_prop w resp ''rows'') \<longrightarrow>
           (\<forall>rows. mergeSchemaWithRows w1 (get_prop w resp ''schema'') (get_prop w resp ''rows'')
                     = Inr rows \<longrightarrow>
              (\<exists>c. fst (getQueryResults mergeSchemaWithRows this options callback (err, resp) w)
                     = Inr c
                   \<and> cb_fn c = cb \<and> cb_err c = JNull \<and> cb_rows c = Some rows \<and> cb_resp c = resp))
           \<and> (\<forall>e. mergeSchemaWithRows w1 (get_prop w resp ''schema'') (get_prop w resp ''rows'')
                     = Inl e \<longrightarrow>
                fst (getQueryResults mergeSchemaWithRows this options callback (err, resp) w)
                  = Inl e))
       \<and> (\<not> (truthy (get_prop w resp ''schema'') \<and> truthy (get_prop w resp ''rows'')) \<longrightarrow>
            (\<exists>c. fst (getQueryResults mergeSchemaWithRows this options callback (err, resp) w)
                   = Inr c
                 \<and> cb_fn c = cb \<and> cb_err c = JNull \<and> cb_rows c = Some [] \<and> cb_resp c = resp))"
proof -
  have old: "\<And>b. b < next_addr w \<Longrightarrow> heap w1 b = heap w b"
    using getQueryResults_request_frame [OF assms(4)] by simp
  have gp: "\<And>k. get_prop w1 resp k = get_prop w resp k"
    using assms(3) old by (rule get_prop_old)
  have d: "decode_rows mergeSchemaWithRows resp w1 =
           (if truthy (get_prop w resp ''schema'') \<and> truthy (get_prop w resp ''rows'')
            then mergeSchemaWithRows w1 (get_prop w resp ''schema'') (get_prop w resp ''rows'')
            else Inr [])"
    by (simp add: decode_rows_def gp)
  note ok = getQueryResults_decoded [OF assms(1,2,4), of mergeSchemaWithRows]
  note ex = getQueryResults_decode_throws [OF assms(1,2,4), of mergeSchemaWithRows]
  show ?thesis
  proof (cases "truthy (get_prop w resp ''schema'') \<and> truthy (get_prop w resp ''rows'')")
    case True
    then show ?thesis using d ok ex by simp
  next
    case False
    then have "decode_rows mergeSchemaWithRows resp w1 = Inr []" using d by auto
    from ok [OF this] False show ?thesis by auto
  qed
qed

theorem getQueryResults_rows_witness:
  "\<not> truthy JNull \<and> \<not> nullish (JRef 7) \<and> allocated example_world (JRef 7)
   \<and> truthy (get_prop example_world (JRef 7) ''schema'')
   \<and> truthy (get_prop example_world (JRef 7) ''rows'')
   \<and> (\<exists>c. fst (getQueryResults example_merge eu_job (JRef 0) 9 (JNull, JRef 7) example_world)
             = Inr c
           \<and> cb_fn c = 9 \<and> cb_err c = JNull \<and> cb_rows c = Some [JRef 9] \<and> cb_resp c = JRef 7)
   \<and> \<not> (truthy (get_prop example_world (JRef 2) ''schema'')
          \<and> truthy (get_prop example_world (JRef 2) ''rows''))
   \<and> (\<exists>c. fst (getQueryResults example_merge eu_job (JRef 0) 9 (JNull, JRef 2) example_world)
             = Inr c
           \<and> cb_fn c = 9 \<and> cb_err c = JNull \<and> cb_rows c = Some [] \<and> cb_resp c = JRef 2)"
proof -
  let ?X = "getQueryResults_request eu_job (JRef 0) 9 example_world"
  have e: "\<not> truthy JNull" by simp
  have n: "\<not> nullish (JRef 7)" "\<not> nullish (JRef 2)" by simp_all
  have r: "allocated example_world (JRef 7)" "allocated example_world (JRef 2)" by code_simp+
  have q: "?X = (fst ?X, fst (snd ?X), snd (snd ?X))" by simp
  have b: "truthy (get_prop example_world (JRef 7) ''schema'')
           \<and> truthy (get_prop example_world (JRef 7) ''rows'')" by code_simp
  have m: "example_merge (snd (snd ?X)) (get_prop example_world (JRef 7) ''schema'')
             (get_prop example_world (JRef 7) ''rows'') = Inr [JRef 9]" by code_simp
  have nb: "\<not> (truthy (get_prop example_world (JRef 2) ''schema'')
           \<and> truthy (get_prop example_world (JRef 2) ''rows''))" by code_simp
  have f: "fst ?X = 9" by code_simp
  note t7 = getQueryResults_rows [OF e n(1) r(1) q, of example_merge, unfolded f]
  note t2 = getQueryResults_rows [OF e n(2) r(2) q, of example_merge, unfolded f]
  have c7: "\<exists>c. fst (getQueryResults example_merge eu_job (JRef 0) 9 (JNull, JRef 7) example_world)
             = Inr c
           \<and> cb_fn c = 9 \<and> cb_err c = JNull \<and> cb_rows c = Some [JRef 9] \<and> cb_resp c = JRef 7"
    using t7 b m by blast
  have c2: "\<exists>c. fst (getQueryResults example_merge eu_job (JRef 0) 9 (JNull, JRef 2) example_world)
             = Inr c
           \<and> cb_fn c = 9 \<and> cb_err c = JNull \<and> cb_rows c = Some [] \<and> cb_resp c = JRef 2"
    using t2 nb by blast
  show ?thesis using e n(1) r(1) b c7 nb c2 by blast
qed


section \<open>Streaming\<close>

text \<open>
  Claim C4, as the code has it. \<^verbatim>\<open>getQueryResultsAsStream_\<close> calls \<^verbatim>\<open>this.getQueryResults\<close>,
  the paginated method, with a new options object. Its \<^verbatim>\<open>autoPaginate\<close> is \<^verbatim>\<open>false\<close> when the caller gives no
  options or options that do not set \<^verbatim>\<open>autoPaginate\<close>; an \<^verbatim>\<open>autoPaginate\<close> that the
  caller's options set is passed on as it is: \<^verbatim>\<open>{autoPaginate: false}\<close> is the target of
  \<^verbatim>\<open>extend\<close>, the caller's options are the source, and the source wins.
\<close>

theorem getQueryResultsAsStream_autoPaginate:
  assumes "getQueryResultsAsStream_options options w = (target, w1)"
  shows "(nullish options \<longrightarrow> heap w1 target ''autoPaginate'' = JBool False)
       \<and> (\<forall>a. options = JRef a \<and> plain_object w a \<longrightarrow>
            heap w1 target ''autoPaginate'' =
              (if heap w a ''autoPaginate'' = JUndefined then JBool False
               else heap w a ''autoPaginate''))
       \<and> getQueryResultsAsStream mergeSchemaWithRows this options callback replies w =
           paginated_getQueryResults mergeSchemaWithRows this (JRef target) callback replies w1"
proof -
  have n: "nullish options \<longrightarrow> heap w1 target ''autoPaginate'' = JBool False"
    using assms
    by (cases options)
       (auto simp: getQueryResultsAsStream_options_def new_object_def extend_into_def Let_def)
  have o: "\<forall>a. options = JRef a \<and> plain_object w a \<longrightarrow>
            heap w1 target ''autoPaginate'' =
              (if heap w a ''autoPaginate'' = JUndefined then JBool False
               else heap w a ''autoPaginate'')"
  proof (intro allI impI)
    fix a assume h: "options = JRef a \<and> plain_object w a"
    then have a: "a < next_addr w" and v: "heap w a ''autoPaginate'' \<noteq> JRef (next_addr w)"
      by (simp_all add: plain_object_def allocated_fresh)
    show "heap w1 target ''autoPaginate'' =
              (if heap w a ''autoPaginate'' = JUndefined then JBool False
               else heap w a ''autoPaginate'')"
      using assms h a v
      by (auto simp: getQueryResultsAsStream_options_def new_object_def extend_into_def Let_def)
  qed
  have g: "getQueryResultsAsStream mergeSchemaWithRows this options callback replies w =
           paginated_getQueryResults mergeSchemaWithRows this (JRef target) callback replies w1"
    using assms by (simp add: getQueryResultsAsStream_def)
  show ?thesis using n o g by blast
qed

text \<open>
  The claim as the specification words it, with \<^verbatim>\<open>autoPaginate\<close> forced to \<^verbatim>\<open>false\<close> also
  when the caller sets it to \<^verbatim>\<open>true\<close>, fails: for the caller's options
  \<^verbatim>\<open>{autoPaginate: true}\<close> the options passed on have \<^verbatim>\<open>autoPaginate\<close> \<^verbatim>\<open>true\<close>.
\<close>

theorem getQueryResultsAsStream_autoPaginate_counterexample:
  "heap example_world 6 ''autoPaginate'' = JBool True
   \<and> fst (getQueryResultsAsStream_options (JRef 6) example_world) = 10
   \<and> heap (snd (getQueryResultsAsStream_options (JRef 6) example_world)) 10 ''autoPaginate''
       = JBool True"
proof -
  have a: "heap example_world 6 ''autoPaginate'' = JBool True" by code_simp
  have t: "fst (getQueryResultsAsStream_options (JRef 6) example_world) = 10" by code_simp
  have p: "heap (snd (getQueryResultsAsStream_options (JRef 6) example_world)) 10
             ''autoPaginate'' = JBool True" by code_simp
  show ?thesis using a t p by blast
qed

theorem getQueryResultsAsStream_autoPaginate_witness:
  "plain_object example_world 8
   \<and> heap example_world 8 ''autoPaginate'' = JUndefined
   \<and> heap (snd (getQueryResultsAsStream_options (JRef 8) example_world))
        (fst (getQueryResultsAsStream_options (JRef 8) example_world)) ''autoPaginate''
       = JBool False
   \<and> nullish JUndefined
   \<and> heap (snd (getQueryResultsAsStream_options JUndefined example_world))
        (fst (getQueryResultsAsStream_options JUndefined example_world)) ''autoPaginate''
       = JBool False"
proof -
  have p: "plain_object example_world 8"
    by (simp add: plain_object_def example_world_def no_props_def)
  have u: "heap example_world 8 ''autoPaginate'' = JUndefined" by code_simp
  have n: "nullish JUndefined" by simp
  note t8 = getQueryResultsAsStream_autoPaginate
    [OF surjective_pairing [of "getQueryResultsAsStream_options (JRef 8) example_world"],
     THEN conjunct2, THEN conjunct1, rule_format, of 8]
  note tu = getQueryResultsAsStream_autoPaginate
    [OF surjective_pairing [of "getQueryResultsAsStream_options JUndefined example_world"],
     THEN conjunct1, rule_format, OF n]
  have "heap (snd (getQueryResultsAsStream_options (JRef 8) example_world))
        (fst (getQueryResultsAsStream_options (JRef 8) example_world)) ''autoPaginate''
       = JBool False"
    using t8 p u by simp
  then show ?thesis using p u n tu by blast
qed

section \<open>The status poller\<close>

text \<open>
  Claim C9. When the metadata fetch fails (a truthy \<^verbatim>\<open>err\<close>), \<^verbatim>\<open>poll_\<close> calls the callback
  with that same error, whatever the metadata and the response are (also when there is
  no response at all): \<^verbatim>\<open>status.errors\<close> is not read. And whenever the callback gets an
  \<^verbatim>\<open>ApiError\<close>, the fetch had succeeded (\<^verbatim>\<open>err\<close> was falsy), the error was built from the
  response's \<^verbatim>\<open>status\<close>, and that status carries \<^verbatim>\<open>errors\<close>.
\<close>

theorem poll_transport_error_passthrough:
  "(truthy err \<longrightarrow>
      poll (err, metadata, apiResponse) w =
        (Inr (Poll_error err), w\<lparr>sent := sent w @ [Job_getMetadata]\<rparr>))
   \<and> (fst (poll (err, metadata, apiResponse) w) = Inr (Poll_ApiError status) \<longrightarrow>
        \<not> truthy err \<and> status = get_prop w apiResponse ''status''
        \<and> truthy (get_prop w status ''errors''))"
  by (auto simp: poll_def poll_response_def poll_error_def Let_def
           split: if_splits sum.splits option.splits jsval.splits)

theorem poll_transport_error_passthrough_witness:
  "truthy (JStr ''ETIMEDOUT'')
   \<and> poll (JStr ''ETIMEDOUT'', JUndefined, JRef 3) example_world =
       (Inr (Poll_error (JStr ''ETIMEDOUT'')), example_world\<lparr>sent := [Job_getMetadata]\<rparr>)
   \<and> fst (poll (JNull, JRef 3, JRef 3) example_world) = Inr (Poll_ApiError (JRef 4))
   \<and> \<not> truthy JNull"
  using poll_transport_error_passthrough
          [of "JStr ''ETIMEDOUT''" JUndefined "JRef 3" example_world "JRef 4"]
    poll_transport_error_passthrough [of JNull "JRef 3" "JRef 3" example_world "JRef 4"]
  by (simp add: example_world_def no_props_def poll_def poll_response_def poll_error_def)

text \<open>
  Claim C2. Take a poll attempt whose metadata fetch succeeded (\<^verbatim>\<open>err\<close> falsy) and whose
  metadata has a \<^verbatim>\<open>status\<close>, as the data model requires. If the response's status
  carries \<^verbatim>\<open>errors\<close> (a truthy \<^verbatim>\<open>status.errors\<close>), the outcome is the failure
  \<^verbatim>\<open>new ApiError(status)\<close>, whatever the state, and so never the success; otherwise, if
  \<^verbatim>\<open>status.state\<close> is not \<^verbatim>\<open>'DONE'\<close>, the outcome is incomplete (\<^verbatim>\<open>callback()\<close>);
  otherwise it is the success carrying the metadata. The code reads the errors from
  \<^verbatim>\<open>apiResponse\<close> and the state from \<^verbatim>\<open>metadata\<close>; the claim's fetched document is the
  case where the two are the same.
\<close>

theorem poll_classifies:
  assumes "\<not> truthy err"
    and "\<not> nullish apiResponse" and "\<not> nullish metadata"
    and "\<not> nullish (get_prop w metadata ''status'')"
  shows "(truthy (get_prop w (get_prop w apiResponse ''status'') ''errors'') \<longrightarrow>
           fst (poll (err, metadata, apiResponse) w) =
             Inr (Poll_ApiError (get_prop w apiResponse ''status''))
           \<and> fst (poll (err, metadata, apiResponse) w) \<noteq> Inr (Poll_complete metadata))
       \<and> (\<not> truthy (get_prop w (get_prop w apiResponse ''status'') ''errors'')
            \<and> get_prop w (get_prop w metadata ''status'') ''state'' \<noteq> JStr ''DONE'' \<longrightarrow>
           fst (poll (err, metadata, apiResponse) w) = Inr Poll_incomplete)
       \<and> (\<not> truthy (get_prop w (get_prop w apiResponse ''status'') ''errors'')
            \<and> get_prop w (get_prop w metadata ''status'') ''state'' = JStr ''DONE'' \<longrightarrow>
           fst (poll (err, metadata, apiResponse) w) = Inr (Poll_complete metadata))"
proof -
  have u: "\<not> truthy (get_prop w apiResponse ''status'') \<Longrightarrow>
           \<not> truthy (get_prop w (get_prop w apiResponse ''status'') ''errors'')"
    by (cases "get_prop w apiResponse ''status''") simp_all
  show ?thesis
    using assms u
    by (auto simp: poll_def poll_response_def poll_error_def Let_def)
qed

theorem poll_classifies_witness:
  "\<not> truthy JNull \<and> \<not> nullish (JRef 3) \<and> \<not> nullish (get_prop example_world (JRef 3) ''status'')
   \<and> truthy (get_prop example_world (get_prop example_world (JRef 3) ''status'') ''errors'')
   \<and> get_prop example_world (get_prop example_world (JRef 3) ''status'') ''state'' = JStr ''DONE''
   \<and> fst (poll (JNull, JRef 3, JRef 3) example_world) = Inr (Poll_ApiError (JRef 4))"
proof -
  have h: "\<not> truthy JNull" "\<not> nullish (JRef 3)" "\<not> nullish (JRef 3)"
      "\<not> nullish (get_prop example_world (JRef 3) ''status'')"
    by code_simp+
  have e: "truthy (get_prop example_world (get_prop example_world (JRef 3) ''status'') ''errors'')"
      "get_prop example_world (get_prop example_world (JRef 3) ''status'') ''state'' = JStr ''DONE''"
      "get_prop example_world (JRef 3) ''status'' = JRef 4"
    by code_simp+
  note t = poll_classifies [OF h, THEN conjunct1, rule_format, OF e(1), THEN conjunct1,
             unfolded e(3)]
  show ?thesis
    using h e(1,2) t by blast
qed

section \<open>Cancelling\<close>

text \<open>
  Claim C8. \<^verbatim>\<open>cancel\<close> makes one call, a POST to \<^verbatim>\<open>/cancel\<close> through the handle's own
  request method, and no other (no metadata fetch, no poll). When the handle has a
  location (\<^verbatim>\<open>this.location\<close> is truthy; the constructor stores nothing else, see
  \<open>Job_new_location\<close>), the query string is a new object holding just that location;
  when it has none, the query string is undefined. The callback is called with what the
  transport answers, error or acknowledgement, unchanged.
\<close>

theorem cancel_single_post:
  "cancel this callback reply w = (c, w') \<Longrightarrow>
     c = Cancel_callback callback (fst reply) (snd reply)
   \<and> (truthy (location this) \<longrightarrow>
        sent w' = sent w @ [Job_request \<lparr>req_method = JStr ''POST'', req_uri = ''/cancel'',
                               req_qs = JRef (next_addr w)\<rparr>]
        \<and> heap w' (next_addr w) = no_props(''location'' := location this)
        \<and> (\<forall>a. a \<noteq> next_addr w \<longrightarrow> heap w' a = heap w a))
   \<and> (\<not> truthy (location this) \<longrightarrow>
        sent w' = sent w @ [Job_request \<lparr>req_method = JStr ''POST'', req_uri = ''/cancel'',
                               req_qs = JUndefined\<rparr>]
        \<and> heap w' = heap w)"
  by (auto simp: cancel_def new_object_def Let_def split: if_splits)

theorem cancel_single_post_witness:
  "cancel eu_job 9 (JNull, JRef 5) example_world =
     (Cancel_callback 9 JNull (JRef 5), snd (cancel eu_job 9 (JNull, JRef 5) example_world))
   \<and> truthy (location eu_job)
   \<and> sent (snd (cancel eu_job 9 (JNull, JRef 5) example_world)) =
       [Job_request \<lparr>req_method = JStr ''POST'', req_uri = ''/cancel'', req_qs = JRef 10\<rparr>]
   \<and> heap (snd (cancel eu_job 9 (JNull, JRef 5) example_world)) 10 ''location'' = JStr ''EU''"
proof -
  have c: "cancel eu_job 9 (JNull, JRef 5) example_world =
     (Cancel_callback 9 JNull (JRef 5), snd (cancel eu_job 9 (JNull, JRef 5) example_world))"
    by (simp add: cancel_def new_object_def Let_def eu_job_def)
  have t: "truthy (location eu_job)" by (simp add: eu_job_def)
  show ?thesis
    using cancel_single_post [OF c] t c
    by (simp add: example_world_def eu_job_def)
qed

end
